theory Spec2Isabelle
  imports Complex_Main
begin

section \<open>Data model\<close>

text \<open>
  The store holds MongoDB documents, which the Python code reads as dictionaries with
  \<open>d.get(key, default)\<close>. A document is modelled as a record with one field per key the
  code reads or writes. A field of option type is \<open>None\<close> when the key is absent from the
  document; for the keys the code declares optional (\<open>salary_min\<close>, \<open>salary_max\<close>,
  \<open>experience_level\<close>, \<open>expires_at\<close>, and the interaction arrays, which the sweep reads
  through \<open>$ifNull\<close>) it also stands for \<open>null\<close>, which the code treats like an absent
  key. Timestamps (\<open>datetime\<close>) are integers counting microseconds, the resolution of
  \<open>datetime\<close>; Python \<open>float\<close> scores are modelled by exact rationals.
\<close>

record applied_entry =
  ae_user_id :: string
  ae_applied_at :: int
  ae_status :: string
  ae_application_id :: string
  ae_external :: bool

record job =
  oid :: string
  title :: "string option"
  company :: "string option"
  location :: "string option"
  description :: "string option"
  salary :: "string option"
  required_skills :: "string list option"
  skills_required :: "string list option"
  job_type :: "string option"
  remote_type :: "string option"
  job_url :: "string option"
  source_platform :: "string option"
  category :: "string option"
  experience_level :: "string option"
  salary_min :: "int option"
  salary_max :: "int option"
  created_at :: "int option"
  applied_by :: "applied_entry list option"
  saved_by :: "string list option"
  apply_count :: "int option"
  save_count :: "int option"
  expires_at :: "int option"
  last_checked :: "int option"

record resume =
  resume_oid :: string
  resume_user_id :: string
  filename :: "string option"
  skills :: "string list option"
  experience :: "string list option"

record preferences =
  preferred_locations :: "string list option"
  remote_preference :: "string option"
  pref_salary_min :: "int option"
  pref_salary_max :: "int option"
  pref_experience_level :: "string option"
  job_types :: "string list option"
  job_categories :: "string list option"

record prefs_doc =
  prefs_user_id :: string
  prefs_preferences :: "preferences option"

record match_result =
  overall_score :: rat
  criterion_scores :: "(string \<times> rat) list"
  missing_skills :: "string list"
  matched_skills :: "string list"
  recommendations :: "string list"

section \<open>Python primitives\<close>

text \<open>\<open>d.get(key, default)\<close>: the default when the key is absent.\<close>

definition get_or :: "'a option \<Rightarrow> 'a \<Rightarrow> 'a" where
  "get_or v d = (case v of None \<Rightarrow> d | Some x \<Rightarrow> x)"

text \<open>\<open>str.lower()\<close> on the ASCII letters; the other characters are left as they are.\<close>

definition lower_char :: "char \<Rightarrow> char" where
  "lower_char c =
     (let n = (of_char c :: nat) in if 65 \<le> n \<and> n \<le> 90 then char_of (n + 32) else c)"

definition lower :: "string \<Rightarrow> string" where
  "lower s = map lower_char s"

text \<open>The substring test \<open>sub in s\<close> on strings.\<close>

fun startswith :: "string \<Rightarrow> string \<Rightarrow> bool" where
  "startswith s [] = True"
| "startswith [] (p # ps) = False"
| "startswith (c # cs) (p # ps) = (c = p \<and> startswith cs ps)"

fun str_in :: "string \<Rightarrow> string \<Rightarrow> bool" where
  "str_in sub [] = (sub = [])"
| "str_in sub (c # cs) = (startswith (c # cs) sub \<or> str_in sub cs)"

text \<open>\<open>sep.join(xs)\<close>.\<close>

fun join :: "string \<Rightarrow> string list \<Rightarrow> string" where
  "join sep [] = []"
| "join sep [x] = x"
| "join sep (x # y # ys) = x @ sep @ join sep (y # ys)"

text \<open>
  \<open>round(x, 1)\<close>: the nearest multiple of one tenth, a tie going to the even neighbour.
\<close>

definition round_half_even :: "rat \<Rightarrow> int" where
  "round_half_even x =
     (let f = \<lfloor>x\<rfloor>; d = x - of_int f in
      if d < 1 / 2 then f
      else if 1 / 2 < d then f + 1
      else if even f then f else f + 1)"

definition round1 :: "rat \<Rightarrow> rat" where
  "round1 x = of_int (round_half_even (x * 10)) / 10"

text \<open>Truthiness of an \<open>Optional[int]\<close>: \<open>None\<close> and \<open>0\<close> are false.\<close>

definition truthy_int :: "int option \<Rightarrow> bool" where
  "truthy_int v = (case v of None \<Rightarrow> False | Some n \<Rightarrow> n \<noteq> 0)"

section \<open>The match scorer (\<open>services/job_matcher.py\<close>)\<close>

text \<open>
  The methods of \<open>JobMatcher\<close> keep their names without the leading underscore, which an
  Isabelle identifier cannot start with.
\<close>

definition WEIGHTS :: "string \<Rightarrow> rat" where
  "WEIGHTS k =
     (if k = ''skills'' then 40 else if k = ''experience'' then 25
      else if k = ''location'' then 15 else if k = ''salary'' then 10
      else if k = ''job_type'' then 5 else if k = ''culture'' then 5 else 0)"

definition matched_count :: "string list \<Rightarrow> string list \<Rightarrow> nat" where
  "matched_count job_skills resume_skills =
     length (filter (\<lambda>skill. skill \<in> set (map lower resume_skills)) (map lower job_skills))"

definition calculate_skills_match :: "string list \<Rightarrow> string list \<Rightarrow> rat" where
  "calculate_skills_match job_skills resume_skills =
     (if job_skills = [] then 100
      else if resume_skills = [] then 0
      else (of_nat (matched_count job_skills resume_skills) / of_nat (length job_skills)) * 100)"

definition experience_levels :: "(string \<times> int) list" where
  "experience_levels = [(''Entry'', 1), (''Mid'', 2), (''Senior'', 3), (''Lead'', 4)]"

definition calculate_experience_match ::
  "string option \<Rightarrow> string list \<Rightarrow> string option \<Rightarrow> rat" where
  "calculate_experience_match job_experience resume_experience pref_experience =
     (case job_experience of
        None \<Rightarrow> 100
      | Some je \<Rightarrow>
          if je = [] then 100
          else
            let job_level = get_or (map_of experience_levels je) 2;
                total_years = length resume_experience;
                user_level =
                  (case (case pref_experience of
                           None \<Rightarrow> None
                         | Some p \<Rightarrow> if p \<noteq> [] then map_of experience_levels p else None) of
                     Some l \<Rightarrow> l
                   | None \<Rightarrow>
                       if resume_experience \<noteq> [] then
                         (if 7 \<le> total_years then 4
                          else if 5 \<le> total_years then 3
                          else if 2 \<le> total_years then 2
                          else 1)
                       else 2);
                level_diff = \<bar>job_level - user_level\<bar>
            in if level_diff = 0 then 100
               else if level_diff = 1 then 75
               else if level_diff = 2 then 50
               else 25)"

definition location_hit :: "string \<Rightarrow> string \<Rightarrow> bool" where
  "location_hit job_location_lower pref_loc =
     (str_in (lower pref_loc) job_location_lower \<or> str_in job_location_lower (lower pref_loc))"

definition calculate_location_match ::
  "string \<Rightarrow> string \<Rightarrow> string list \<Rightarrow> string \<Rightarrow> rat" where
  "calculate_location_match job_location job_remote pref_locations pref_remote =
     (if job_remote = ''Remote'' then
        (if pref_remote \<in> set [''Remote'', ''Any''] then 100
         else if pref_remote = ''Hybrid'' then 75
         else 50)
      else if job_remote = ''Hybrid'' then
        (if pref_remote \<in> set [''Hybrid'', ''Any''] then 100
         else if pref_remote = ''Remote'' then 75
         else 85)
      else if pref_remote = ''Remote'' then 25
      else if pref_locations = [] then 75
      else if list_ex (location_hit (lower job_location)) pref_locations then 100
      else 50)"

definition salary_band :: "rat \<Rightarrow> rat" where
  "salary_band diff_percentage =
     (if diff_percentage \<le> 10 then 100
      else if diff_percentage \<le> 20 then 85
      else if diff_percentage \<le> 30 then 70
      else if diff_percentage \<le> 50 then 50
      else 25)"

definition calculate_salary_match ::
  "int option \<Rightarrow> int option \<Rightarrow> int option \<Rightarrow> int option \<Rightarrow> rat" where
  "calculate_salary_match job_salary_min job_salary_max p_salary_min p_salary_max =
     (if \<not> truthy_int job_salary_min \<and> \<not> truthy_int job_salary_max then 75
      else if \<not> truthy_int p_salary_min \<and> \<not> truthy_int p_salary_max then 75
      else
        let job_salary =
              (if truthy_int job_salary_min \<and> truthy_int job_salary_max
               then (of_int (get_or job_salary_min 0) + of_int (get_or job_salary_max 0)) / 2
               else if truthy_int job_salary_min then of_int (get_or job_salary_min 0)
               else of_int (get_or job_salary_max 0));
            pref_salary =
              (if truthy_int p_salary_min \<and> truthy_int p_salary_max
               then (of_int (get_or p_salary_min 0) + of_int (get_or p_salary_max 0)) / 2
               else if truthy_int p_salary_min then of_int (get_or p_salary_min 0)
               else if truthy_int p_salary_max then of_int (get_or p_salary_max 0)
               else job_salary)
        in if pref_salary = 0 then 75
           else salary_band (\<bar>job_salary - pref_salary\<bar> / pref_salary * 100))"

definition calculate_job_type_match :: "string \<Rightarrow> string list \<Rightarrow> rat" where
  "calculate_job_type_match jt pref_job_types =
     (if pref_job_types = [] then 100
      else if jt \<in> set pref_job_types then 100
      else if jt = ''Full-time'' \<and> ''Part-time'' \<in> set pref_job_types then 50
      else if jt = ''Part-time'' \<and> ''Full-time'' \<in> set pref_job_types then 50
      else 25)"

definition calculate_culture_match :: "string \<Rightarrow> string list \<Rightarrow> rat" where
  "calculate_culture_match job_category pref_categories =
     (if pref_categories = [] then 75
      else if job_category \<in> set pref_categories then 100
      else 50)"

definition get_missing_skills :: "string list \<Rightarrow> string list \<Rightarrow> string list" where
  "get_missing_skills job_skills resume_skills =
     filter (\<lambda>skill. lower skill \<notin> set (map lower resume_skills)) job_skills"

definition generate_recommendations ::
  "rat \<Rightarrow> rat \<Rightarrow> rat \<Rightarrow> rat \<Rightarrow> rat \<Rightarrow> rat \<Rightarrow> string list \<Rightarrow> string list" where
  "generate_recommendations skills_score experience_score location_score salary_score
       job_type_score culture_score missing =
     (if skills_score < 60 then
        (if missing \<noteq> [] then
           [''Consider learning: '' @ join '', '' (take 3 missing) @ '' to improve your match'']
         else [''Highlight relevant skills in your resume''])
      else [])
     @ (if experience_score < 60
        then [''This role may require different experience level than yours''] else [])
     @ (if location_score < 60
        then [''Consider if you're willing to relocate or adjust remote preferences'']
        else [])
     @ (if salary_score < 60
        then [''Salary expectations may not align with this role''] else [])
     @ (if 80 \<le> skills_score \<and> 70 \<le> experience_score
        then [''Strong match! Consider applying soon''] else [])"

definition calculate_match_score :: "job \<Rightarrow> resume \<Rightarrow> preferences option \<Rightarrow> match_result" where
  "calculate_match_score jb user_resume user_preferences =
     (let job_skills = get_or (skills_required jb) [];
          job_experience = experience_level jb;
          job_location = get_or (location jb) [];
          job_remote = get_or (remote_type jb) [];
          job_salary_min = salary_min jb;
          job_salary_max = salary_max jb;
          jt = get_or (job_type jb) ''Full-time'';
          job_category = get_or (category jb) [];
          resume_skills = get_or (skills user_resume) [];
          resume_experience = get_or (experience user_resume) [];
          pref_locations = get_or (Option.bind user_preferences preferred_locations) [];
          pref_remote = get_or (Option.bind user_preferences remote_preference) ''Any'';
          p_salary_min = Option.bind user_preferences pref_salary_min;
          p_salary_max = Option.bind user_preferences pref_salary_max;
          pref_experience = Option.bind user_preferences pref_experience_level;
          pref_job_types = get_or (Option.bind user_preferences job_types) [''Full-time''];
          pref_categories = get_or (Option.bind user_preferences job_categories) [];
          skills_score = calculate_skills_match job_skills resume_skills;
          experience_score =
            calculate_experience_match job_experience resume_experience pref_experience;
          location_score =
            calculate_location_match job_location job_remote pref_locations pref_remote;
          salary_score =
            calculate_salary_match job_salary_min job_salary_max p_salary_min p_salary_max;
          job_type_score = calculate_job_type_match jt pref_job_types;
          culture_score = calculate_culture_match job_category pref_categories;
          overall =
            skills_score * WEIGHTS ''skills'' / 100 +
            experience_score * WEIGHTS ''experience'' / 100 +
            location_score * WEIGHTS ''location'' / 100 +
            salary_score * WEIGHTS ''salary'' / 100 +
            job_type_score * WEIGHTS ''job_type'' / 100 +
            culture_score * WEIGHTS ''culture'' / 100;
          missing = get_missing_skills job_skills resume_skills
      in \<lparr> overall_score = round1 overall,
           criterion_scores =
             [(''skills'', round1 skills_score),
              (''experience'', round1 experience_score),
              (''location'', round1 location_score),
              (''salary'', round1 salary_score),
              (''job_type'', round1 job_type_score),
              (''culture'', round1 culture_score)],
           missing_skills = missing,
           matched_skills =
             filter (\<lambda>skill. lower skill \<in> set (map lower resume_skills)) job_skills,
           recommendations =
             generate_recommendations skills_score experience_score location_score
               salary_score job_type_score culture_score missing \<rparr>)"

section \<open>The document store\<close>

text \<open>
  The store is an external service: any call to it may raise. \<open>down\<close> says that the store
  is unreachable, so that every call raises; \<open>rejects\<close> holds the job documents whose
  insertion the store refuses (a violated index or validation rule). Inserted documents
  carry the identifier the driver gives them in their \<open>oid\<close>; the store keeps the
  identifiers of a collection distinct. An operation reads the clock once, as \<open>now\<close>.
\<close>

datatype error = Exception string | KeyError string | HTTPException nat string

record job_details =
  jd_title :: string
  jd_company :: string
  jd_location :: string
  jd_description :: string
  jd_required_skills :: "string list"
  jd_job_type :: string
  jd_remote_type :: string
  jd_salary :: "string option"
  jd_job_url :: "string option"
  jd_source_platform :: string
  jd_category :: string
  jd_experience_level :: "string option"

record application =
  app_oid :: string
  app_user_id :: string
  app_job_id :: string
  app_resume_id :: "string option"
  app_resume_filename :: "string option"
  app_external_application :: bool
  app_status :: string
  app_match_score :: rat
  app_created_at :: int
  app_notes :: "string list option"
  app_job_details :: job_details

datatype detail = DStr string | DNum rat

record lifecycle_log =
  ll_job_id :: string
  ll_event_type :: string
  ll_user_id :: "string option"
  ll_timestamp :: int
  ll_details :: "(string \<times> detail) list"

record platform_result =
  platform :: string
  scraped :: nat
  stored :: nat
  duplicates :: nat
  errors :: nat
  error_message :: "string option"

datatype system_log =
    CleanupLog int nat string "string option"
  | ScrapingLog int nat nat nat nat int "platform_result list" string

record db =
  jobs :: "job list"
  applications :: "application list"
  resumes :: "resume list"
  user_preferences :: "prefs_doc list"
  job_lifecycle_logs :: "lifecycle_log list"
  system_logs :: "system_log list"
  down :: bool
  rejects :: "job \<Rightarrow> bool"

definition store_error :: error where
  "store_error = Exception ''store unavailable''"

text \<open>\<open>collection.find_one(filter)\<close>: the first document that matches, if the store answers.\<close>

definition find_one :: "db \<Rightarrow> ('a \<Rightarrow> bool) \<Rightarrow> 'a list \<Rightarrow> error + 'a option" where
  "find_one d flt docs = (if down d then Inl store_error else Inr (List.find flt docs))"

text \<open>\<open>calculate_job_match(job, user_id, db)\<close>, the helper the routers call.\<close>

definition calculate_job_match :: "job \<Rightarrow> string \<Rightarrow> db \<Rightarrow> error + match_result" where
  "calculate_job_match jb user_id d =
     (case find_one d (\<lambda>r. resume_user_id r = user_id) (resumes d) of
        Inl e \<Rightarrow> Inl e
      | Inr None \<Rightarrow>
          Inr \<lparr> overall_score = 0, criterion_scores = [],
                missing_skills = get_or (skills_required jb) [],
                matched_skills = [],
                recommendations = [''Please upload a resume to see match scores''] \<rparr>
      | Inr (Some rs) \<Rightarrow>
          (case find_one d (\<lambda>p. prefs_user_id p = user_id) (user_preferences d) of
             Inl e \<Rightarrow> Inl e
           | Inr prefs \<Rightarrow>
               Inr (calculate_match_score jb rs (Option.bind prefs prefs_preferences))))"

text \<open>\<open>collection.insert_one(doc)\<close> on the job collection.\<close>

definition insert_one_job :: "db \<Rightarrow> job \<Rightarrow> error + db" where
  "insert_one_job d j =
     (if down d \<or> rejects d j then Inl store_error else Inr (d\<lparr>jobs := jobs d @ [j]\<rparr>))"

text \<open>\<open>collection.update_one(filter, update)\<close>: the first matching document is updated.\<close>

fun update_one :: "('a \<Rightarrow> bool) \<Rightarrow> ('a \<Rightarrow> 'a) \<Rightarrow> 'a list \<Rightarrow> 'a list" where
  "update_one flt upd [] = []"
| "update_one flt upd (x # xs) = (if flt x then upd x # xs else x # update_one flt upd xs)"

text \<open>\<open>ObjectId.is_valid\<close> on a string: 24 hexadecimal digits.\<close>

definition ObjectId_is_valid :: "string \<Rightarrow> bool" where
  "ObjectId_is_valid s =
     (length s = 24 \<and> list_all (\<lambda>c. c \<in> set ''0123456789abcdefABCDEF'') s)"

definition day_us :: int where
  "day_us = 86400000000"

section \<open>The lifecycle manager (\<open>services/job_lifecycle.py\<close>)\<close>

text \<open>
  The logging helpers catch every exception of their store call, so a failed call leaves
  the store as it was.
\<close>

definition log_cleanup_event :: "int \<Rightarrow> nat \<Rightarrow> string \<Rightarrow> string option \<Rightarrow> db \<Rightarrow> db" where
  "log_cleanup_event now deleted_count status err d =
     (if down d then d
      else d\<lparr>system_logs := system_logs d @ [CleanupLog now deleted_count status err]\<rparr>)"

definition log_job_event ::
  "int \<Rightarrow> string \<Rightarrow> string \<Rightarrow> string option \<Rightarrow> (string \<times> detail) list \<Rightarrow> db \<Rightarrow> db" where
  "log_job_event now jid event_type uid details d =
     (if down d then d
      else d\<lparr>job_lifecycle_logs := job_lifecycle_logs d @
             [\<lparr> ll_job_id = jid, ll_event_type = event_type, ll_user_id = uid,
                ll_timestamp = now, ll_details = details \<rparr>]\<rparr>)"

text \<open>The filter of the sweep's \<open>delete_many\<close>.\<close>

definition sweep_filter :: "int \<Rightarrow> job \<Rightarrow> bool" where
  "sweep_filter cutoff_date j =
     ((case created_at j of None \<Rightarrow> False | Some t \<Rightarrow> t < cutoff_date)
      \<and> length (get_or (applied_by j) []) = 0
      \<and> length (get_or (saved_by j) []) = 0)"

definition cleanup_expired_jobs :: "int \<Rightarrow> db \<Rightarrow> nat \<times> db" where
  "cleanup_expired_jobs now d =
     (if down d then (0, log_cleanup_event now 0 ''failed'' (Some ''store unavailable'') d)
      else
        let cutoff_date = now - 1 * day_us;
            deleted_count = length (filter (sweep_filter cutoff_date) (jobs d));
            d' = d\<lparr>jobs := filter (\<lambda>j. \<not> sweep_filter cutoff_date j) (jobs d)\<rparr>
        in if 0 < deleted_count
           then (deleted_count, log_cleanup_event now deleted_count ''success'' None d')
           else (deleted_count, d'))"

text \<open>
  \<open>sync_job_counts\<close>: every document of the cursor is updated through its own identifier.
\<close>

definition sync_job_counts :: "int \<Rightarrow> db \<Rightarrow> nat \<times> db" where
  "sync_job_counts now d =
     (if down d then (0, d)
      else
        (length (jobs d),
         d\<lparr>jobs := map (\<lambda>j. j\<lparr>apply_count := Some (int (length (get_or (applied_by j) []))),
                               save_count := Some (int (length (get_or (saved_by j) []))),
                               last_checked := Some now\<rparr>) (jobs d)\<rparr>))"

text \<open>
  \<open>mark_job_for_deletion\<close> and \<open>remove_deletion_mark\<close>; their boolean result, which no
  caller reads, is left out.
\<close>

definition mark_job_for_deletion :: "int \<Rightarrow> string \<Rightarrow> int \<Rightarrow> db \<Rightarrow> db" where
  "mark_job_for_deletion now jid days d =
     (if \<not> ObjectId_is_valid jid then d
      else if down d then d
      else d\<lparr>jobs := update_one (\<lambda>j. oid j = jid)
                       (\<lambda>j. j\<lparr>expires_at := Some (now + days * day_us)\<rparr>) (jobs d)\<rparr>)"

definition remove_deletion_mark :: "string \<Rightarrow> db \<Rightarrow> db" where
  "remove_deletion_mark jid d =
     (if \<not> ObjectId_is_valid jid then d
      else if down d then d
      else d\<lparr>jobs := update_one (\<lambda>j. oid j = jid) (\<lambda>j. j\<lparr>expires_at := None\<rparr>) (jobs d)\<rparr>)"

section \<open>Saving and unsaving (\<open>routers/jobs.py\<close>)\<close>

text \<open>
  The handlers have no \<open>try\<close>: an exception of a store call leaves the handler. \<open>$pull\<close>
  removes every occurrence of the value from the array and does nothing when the array is
  absent; \<open>$inc\<close> counts an absent field as 0; \<open>$push\<close> creates an absent array.
\<close>

definition save_job :: "int \<Rightarrow> string \<Rightarrow> string \<Rightarrow> db \<Rightarrow> error + (string \<times> db)" where
  "save_job now jid user_id d =
     (if \<not> ObjectId_is_valid jid then Inl (HTTPException 400 ''Invalid job ID'')
      else
        case find_one d (\<lambda>j. oid j = jid) (jobs d) of
          Inl e \<Rightarrow> Inl e
        | Inr None \<Rightarrow> Inl (HTTPException 404 ''Job not found'')
        | Inr (Some jb) \<Rightarrow>
            if user_id \<in> set (get_or (saved_by jb) []) then Inr (''Already saved'', d)
            else
              let d1 = d\<lparr>jobs := update_one (\<lambda>j. oid j = jid)
                             (\<lambda>j. j\<lparr>saved_by := Some (get_or (saved_by j) [] @ [user_id]),
                                    save_count := Some (get_or (save_count j) 0 + 1),
                                    expires_at := None\<rparr>) (jobs d)\<rparr>;
                  d2 = log_job_event now jid ''saved'' (Some user_id) [] d1;
                  d3 = remove_deletion_mark jid d2
              in Inr (''Job saved successfully'', d3))"

definition unsave_job :: "int \<Rightarrow> string \<Rightarrow> string \<Rightarrow> db \<Rightarrow> error + (string \<times> db)" where
  "unsave_job now jid user_id d =
     (if \<not> ObjectId_is_valid jid then Inl (HTTPException 400 ''Invalid job ID'')
      else if down d then Inl store_error
      else
        let d1 = d\<lparr>jobs := update_one (\<lambda>j. oid j = jid)
                       (\<lambda>j. j\<lparr>saved_by := map_option (filter (\<lambda>u. u \<noteq> user_id)) (saved_by j),
                              save_count := Some (get_or (save_count j) 0 + (- 1))\<rparr>) (jobs d)\<rparr>;
            d2 = log_job_event now jid ''unsaved'' (Some user_id) [] d1
        in case find_one d2 (\<lambda>j. oid j = jid) (jobs d2) of
             Inl e \<Rightarrow> Inl e
           | Inr None \<Rightarrow> Inr (''Job unsaved successfully'', d2)
           | Inr (Some jb) \<Rightarrow>
               if get_or (saved_by jb) [] = [] \<and> get_or (applied_by jb) [] = []
               then Inr (''Job unsaved successfully'', mark_job_for_deletion now jid 3 d2)
               else Inr (''Job unsaved successfully'', d2))"

section \<open>Applying (\<open>routers/apply.py\<close>)\<close>

text \<open>
  Both handlers run in a \<open>try\<close> that passes an \<open>HTTPException\<close> on and turns every
  other exception into \<open>HTTPException(500)\<close>; with the store unreachable that happens at
  their first store call. The match score of \<open>apply_to_job\<close> comes from the text
  generation service and is a parameter here, as is the identifier the store gives the
  new application.
\<close>

record apply_response =
  resp_message :: string
  resp_application_id :: string
  resp_match_score :: "rat option"
  resp_job_title :: "string option"
  resp_external :: bool

definition job_snapshot :: "job \<Rightarrow> job_details" where
  "job_snapshot jb =
     \<lparr> jd_title = get_or (title jb) ''Unknown'',
       jd_company = get_or (company jb) ''Unknown'',
       jd_location = get_or (location jb) ''Unknown'',
       jd_description = get_or (description jb) [],
       jd_required_skills = get_or (required_skills jb) [],
       jd_job_type = get_or (job_type jb) ''Full-time'',
       jd_remote_type = get_or (remote_type jb) ''On-site'',
       jd_salary = salary jb,
       jd_job_url = job_url jb,
       jd_source_platform = get_or (source_platform jb) ''Unknown'',
       jd_category = get_or (category jb) ''Other'',
       jd_experience_level = experience_level jb \<rparr>"

definition apply_to_job ::
  "int \<Rightarrow> string \<Rightarrow> string option \<Rightarrow> string \<Rightarrow> rat \<Rightarrow> string \<Rightarrow> db
     \<Rightarrow> error + (apply_response \<times> db)" where
  "apply_to_job now jid resume_id user_id match_score new_id d =
     (if \<not> ObjectId_is_valid jid then Inl (HTTPException 400 ''Invalid job ID'')
      else if down d then Inl (HTTPException 500 ''store unavailable'')
      else
        case List.find (\<lambda>a. app_user_id a = user_id \<and> app_job_id a = jid) (applications d) of
          Some existing \<Rightarrow> Inl (HTTPException 400 ''Already applied to this job'')
        | None \<Rightarrow>
           (case List.find (\<lambda>j. oid j = jid) (jobs d) of
              None \<Rightarrow> Inl (HTTPException 404 ''Job not found'')
            | Some jb \<Rightarrow>
               (case (if get_or resume_id [] \<noteq> [] \<and> ObjectId_is_valid (get_or resume_id [])
                      then List.find (\<lambda>r. resume_oid r = get_or resume_id []
                                            \<and> resume_user_id r = user_id) (resumes d)
                      else List.find (\<lambda>r. resume_user_id r = user_id) (resumes d)) of
                  None \<Rightarrow> Inl (HTTPException 400 ''Please upload a resume first'')
                | Some rs \<Rightarrow>
                    let app =
                          \<lparr> app_oid = new_id, app_user_id = user_id, app_job_id = jid,
                            app_resume_id = Some (resume_oid rs),
                            app_resume_filename = Some (get_or (filename rs) []),
                            app_external_application = False,
                            app_status = ''Applied'', app_match_score = match_score,
                            app_created_at = now, app_notes = None,
                            app_job_details = job_snapshot jb \<rparr>;
                        d1 = d\<lparr>applications := applications d @ [app]\<rparr>;
                        d2 = d1\<lparr>jobs := update_one (\<lambda>j. oid j = jid)
                               (\<lambda>j. j\<lparr>applied_by := Some (get_or (applied_by j) [] @
                                         [\<lparr> ae_user_id = user_id, ae_applied_at = now,
                                            ae_status = ''Applied'',
                                            ae_application_id = new_id,
                                            ae_external = False \<rparr>]),
                                      apply_count := Some (get_or (apply_count j) 0 + 1),
                                      expires_at := None\<rparr>) (jobs d1)\<rparr>;
                        d3 = log_job_event now jid ''applied'' (Some user_id)
                               [(''application_id'', DStr new_id),
                                (''match_score'', DNum match_score)] d2
                    in Inr (\<lparr> resp_message =
                                ''Application submitted successfully. Job will be kept in your history permanently.'',
                              resp_application_id = new_id,
                              resp_match_score = Some match_score,
                              resp_job_title = None, resp_external = False \<rparr>, d3))))"

definition mark_external_application ::
  "int \<Rightarrow> string \<Rightarrow> string \<Rightarrow> string \<Rightarrow> db \<Rightarrow> error + (apply_response \<times> db)" where
  "mark_external_application now jid user_id new_id d =
     (if \<not> ObjectId_is_valid jid then Inl (HTTPException 400 ''Invalid job ID'')
      else if down d then Inl (HTTPException 500 ''store unavailable'')
      else
        case List.find (\<lambda>a. app_user_id a = user_id \<and> app_job_id a = jid) (applications d) of
          Some existing \<Rightarrow> Inl (HTTPException 400 ''Already marked as applied'')
        | None \<Rightarrow>
           (case List.find (\<lambda>j. oid j = jid) (jobs d) of
              None \<Rightarrow> Inl (HTTPException 404 ''Job not found'')
            | Some jb \<Rightarrow>
                let app =
                      \<lparr> app_oid = new_id, app_user_id = user_id, app_job_id = jid,
                        app_resume_id = None, app_resume_filename = None,
                        app_external_application = True,
                        app_status = ''Applied'', app_match_score = 0,
                        app_created_at = now, app_notes = Some [],
                        app_job_details = job_snapshot jb \<rparr>;
                    d1 = d\<lparr>applications := applications d @ [app]\<rparr>;
                    d2 = d1\<lparr>jobs := update_one (\<lambda>j. oid j = jid)
                           (\<lambda>j. j\<lparr>applied_by := Some (get_or (applied_by j) [] @
                                     [\<lparr> ae_user_id = user_id, ae_applied_at = now,
                                        ae_status = ''Applied'',
                                        ae_application_id = new_id,
                                        ae_external = True \<rparr>]),
                                  apply_count := Some (get_or (apply_count j) 0 + 1)\<rparr>)
                           (jobs d1)\<rparr>
                in Inr (\<lparr> resp_message = ''Application marked successfully'',
                          resp_application_id = new_id,
                          resp_match_score = None,
                          resp_job_title = title jb, resp_external = True \<rparr>, d2)))"

text \<open>
  The invariant of the data model: a posting with an expiry marker has neither applicants
  nor savers.
\<close>

definition expiry_invariant :: "job \<Rightarrow> bool" where
  "expiry_invariant j =
     (expires_at j = None \<or> (get_or (applied_by j) [] = [] \<and> get_or (saved_by j) [] = []))"

section \<open>Ingestion (\<open>scrapers/base_scraper.py\<close>)\<close>

text \<open>
  An adapter is its platform name and its \<open>scrape_jobs\<close> method, whose call returns the
  scraped postings or raises. The enrichment step \<open>job_processor.process_job\<close> is a
  parameter; it may raise as well.
\<close>

record scraper =
  platform_name :: string
  scrape_jobs :: "nat \<Rightarrow> error + job list"

definition str_of_error :: "error \<Rightarrow> string" where
  "str_of_error e =
     (case e of Exception m \<Rightarrow> m | KeyError k \<Rightarrow> k | HTTPException c m \<Rightarrow> m)"

definition check_duplicate :: "string \<Rightarrow> db \<Rightarrow> error + bool" where
  "check_duplicate url d =
     (case find_one d (\<lambda>j. job_url j = Some url) (jobs d) of
        Inl e \<Rightarrow> Inl e
      | Inr existing \<Rightarrow> Inr (existing \<noteq> None))"

text \<open>
  The body of the loop over the scraped postings: what becomes of one posting. A posting
  without the key \<open>job_url\<close> raises \<open>KeyError\<close>; every exception but the enrichment's
  counts the posting as an error.
\<close>

datatype outcome = Stored | Duplicate | Failed

definition store_job :: "(job \<Rightarrow> error + job) \<Rightarrow> job \<Rightarrow> db \<Rightarrow> outcome \<times> db" where
  "store_job process_job jb d =
     (case job_url jb of
        None \<Rightarrow> (Failed, d)
      | Some url \<Rightarrow>
          (case check_duplicate url d of
             Inl e \<Rightarrow> (Failed, d)
           | Inr True \<Rightarrow> (Duplicate, d)
           | Inr False \<Rightarrow>
               let jb' = (case process_job jb of Inl ge \<Rightarrow> jb | Inr enhanced \<Rightarrow> enhanced)
               in (case insert_one_job d jb' of
                     Inl e \<Rightarrow> (Failed, d)
                   | Inr d' \<Rightarrow> (Stored, d'))))"

fun store_each ::
  "(job \<Rightarrow> error + job) \<Rightarrow> job list \<Rightarrow> nat \<times> nat \<times> nat \<times> db \<Rightarrow> nat \<times> nat \<times> nat \<times> db" where
  "store_each process_job [] acc = acc"
| "store_each process_job (jb # rest) (stored_count, duplicate_count, error_count, d) =
     (case store_job process_job jb d of
        (Stored, d') \<Rightarrow>
          store_each process_job rest (stored_count + 1, duplicate_count, error_count, d')
      | (Duplicate, d') \<Rightarrow>
          store_each process_job rest (stored_count, duplicate_count + 1, error_count, d')
      | (Failed, d') \<Rightarrow>
          store_each process_job rest (stored_count, duplicate_count, error_count + 1, d'))"

definition scrape_and_store ::
  "scraper \<Rightarrow> (job \<Rightarrow> error + job) \<Rightarrow> nat \<Rightarrow> db \<Rightarrow> platform_result \<times> db" where
  "scrape_and_store sc process_job limit d =
     (case scrape_jobs sc limit of
        Inl e \<Rightarrow>
          (\<lparr> platform = platform_name sc, scraped = 0, stored = 0, duplicates = 0,
              errors = 1, error_message = Some (str_of_error e) \<rparr>, d)
      | Inr js \<Rightarrow>
          if js = [] then
            (\<lparr> platform = platform_name sc, scraped = 0, stored = 0, duplicates = 0,
                errors = 0, error_message = None \<rparr>, d)
          else
            (case store_each process_job js (0, 0, 0, d) of
               (stored_count, duplicate_count, error_count, d') \<Rightarrow>
                 (\<lparr> platform = platform_name sc, scraped = length js,
                     stored = stored_count, duplicates = duplicate_count,
                     errors = error_count, error_message = None \<rparr>, d')))"

section \<open>The orchestrator (\<open>services/scraping_orchestrator.py\<close>)\<close>






section \<open>The claimed seniority rule\<close>

text \<open>
  The seniority rule in the words of the specification, to compare the code with: the
  candidate's level is the explicit preference when one is given, otherwise inferred from
  the number of experience entries (at least 7: Lead, at least 5: Senior, at least 2: Mid,
  else Entry); the score follows the distance of the two levels on the scale Entry = 1,
  Mid = 2, Senior = 3, Lead = 4.
\<close>

definition claimed_candidate_level :: "int option \<Rightarrow> nat \<Rightarrow> int" where
  "claimed_candidate_level explicit_preference entry_count =
     (case explicit_preference of
        Some l \<Rightarrow> l
      | None \<Rightarrow>
          if 7 \<le> entry_count then 4
          else if 5 \<le> entry_count then 3
          else if 2 \<le> entry_count then 2
          else 1)"

definition claimed_seniority_score :: "int \<Rightarrow> int \<Rightarrow> rat" where
  "claimed_seniority_score posting_level candidate_level =
     (let distance = \<bar>posting_level - candidate_level\<bar> in
      if distance = 0 then 100
      else if distance = 1 then 75
      else if distance = 2 then 50
      else 25)"

section \<open>Example documents\<close>

definition example_job :: job where
  "example_job =
     \<lparr> oid = ''64b7f0c2a1b2c3d4e5f60718'',
       title = Some ''Backend Engineer'', company = Some ''Acme'',
       location = Some ''Berlin'', description = Some ''Build services'',
       salary = None, required_skills = Some [''Python'', ''AWS''],
       skills_required = Some [''Python'', ''AWS''],
       job_type = Some ''Full-time'', remote_type = Some ''Remote'',
       job_url = Some ''https://jobs.example/1'', source_platform = Some ''RemoteOK'',
       category = Some ''Backend'', experience_level = Some ''Senior'',
       salary_min = Some 100000, salary_max = Some 120000,
       created_at = Some 0, applied_by = Some [], saved_by = Some [],
       apply_count = Some 0, save_count = Some 0, expires_at = None,
       last_checked = None \<rparr>"

definition example_resume :: resume where
  "example_resume =
     \<lparr> resume_oid = ''64b7f0c2a1b2c3d4e5f60001'', resume_user_id = ''u1'',
       filename = Some ''cv.pdf'', skills = Some [''python'', ''docker''],
       experience = Some [''Acme 2019'', ''Initech 2021''] \<rparr>"

definition example_db :: db where
  "example_db =
     \<lparr> jobs = [example_job], applications = [], resumes = [example_resume],
       user_preferences = [], job_lifecycle_logs = [], system_logs = [],
       down = False, rejects = (\<lambda>j. False) \<rparr>"

definition hour_us :: int where
  "hour_us = 3600000000"

definition sweep_db :: db where
  "sweep_db =
     example_db\<lparr>jobs :=
       [example_job\<lparr>oid := ''64b7f0c2a1b2c3d4e5f60701'', created_at := Some 0,
                    expires_at := Some (100 * hour_us)\<rparr>,
        example_job\<lparr>oid := ''64b7f0c2a1b2c3d4e5f60702'', created_at := Some (2 * hour_us),
                    expires_at := Some (100 * hour_us)\<rparr>]\<rparr>"

text \<open>A posting pending deletion: unsaved by its last saver, marked to expire in 3 days.\<close>

definition pending_db :: db where
  "pending_db = example_db\<lparr>jobs := [example_job\<lparr>expires_at := Some (72 * hour_us)\<rparr>]\<rparr>"

text \<open>Adapters and a store that refuses one of the scraped postings.\<close>

definition second_job :: job where
  "second_job = example_job\<lparr>oid := ''64b7f0c2a1b2c3d4e5f60719'',
                              job_url := Some ''https://jobs.example/2''\<rparr>"

definition example_scraper :: scraper where
  "example_scraper =
     \<lparr> platform_name = ''RemoteOK'', scrape_jobs = (\<lambda>limit. Inr [example_job, second_job]) \<rparr>"




section \<open>Properties of the match scorer\<close>

subsection \<open>Rounding and the skills score are monotone\<close>

lemma round_half_even_bounds:
  "\<lfloor>x\<rfloor> \<le> round_half_even x \<and> round_half_even x \<le> \<lfloor>x\<rfloor> + 1"
  by (simp add: round_half_even_def Let_def)

lemma round_half_even_mono:
  assumes "x \<le> y"
  shows "round_half_even x \<le> round_half_even y"
proof (cases "\<lfloor>x\<rfloor> = \<lfloor>y\<rfloor>")
  case True
  have "x - of_int \<lfloor>x\<rfloor> \<le> y - of_int \<lfloor>y\<rfloor>"
    using assms True by simp
  then show ?thesis
    using True by (auto simp add: round_half_even_def Let_def)
next
  case False
  have "\<lfloor>x\<rfloor> \<le> \<lfloor>y\<rfloor>"
    using assms by (rule floor_mono)
  with False have "\<lfloor>x\<rfloor> + 1 \<le> \<lfloor>y\<rfloor>"
    by simp
  then show ?thesis
    using round_half_even_bounds [of x] round_half_even_bounds [of y] by linarith
qed

lemma round1_mono: "x \<le> y \<Longrightarrow> round1 x \<le> round1 y"
  unfolding round1_def
  by (intro divide_right_mono) (simp_all add: round_half_even_mono)

lemma matched_count_mono:
  assumes "set rs \<subseteq> set rs'"
  shows "matched_count js rs \<le> matched_count js rs'"
proof -
  have "set (map lower rs) \<subseteq> set (map lower rs')"
    using assms by auto
  then show ?thesis
    unfolding matched_count_def
    by (induction js) auto
qed

lemma calculate_skills_match_mono:
  "calculate_skills_match js (ys @ zs) \<le> calculate_skills_match js (ys @ s # zs)"
proof (cases "js = []")
  case True
  then show ?thesis by (simp add: calculate_skills_match_def)
next
  case False
  have m: "matched_count js (ys @ zs) \<le> matched_count js (ys @ s # zs)"
    by (rule matched_count_mono) auto
  have pos: "(0::rat) < of_nat (length js)"
    using False by simp
  have "(of_nat (matched_count js (ys @ zs)) :: rat) / of_nat (length js) * 100
        \<le> of_nat (matched_count js (ys @ s # zs)) / of_nat (length js) * 100"
    using m pos by (simp add: divide_right_mono)
  moreover have "(0::rat) \<le> of_nat (matched_count js (ys @ s # zs)) / of_nat (length js) * 100"
    by simp
  ultimately show ?thesis
    using False by (simp add: calculate_skills_match_def)
qed

text \<open>
  C4, as the claim states it: the posting band 100000--120000 against the preference band
  150000--150000 would score 50. The code scores it otherwise.
\<close>

theorem salary_scenario_counterexample:
  "calculate_salary_match (Some 100000) (Some 120000) (Some 150000) (Some 150000) \<noteq> 50"
  by (simp add: calculate_salary_match_def truthy_int_def get_or_def salary_band_def)

text \<open>
  C4, amended: the code takes the deviation of the two midpoints as a percentage of the
  preference midpoint. For the posting band 100000--120000 and the preference band
  150000--150000 that is 26.7 percent (80/3), and the salary sub-score is 70. The score
  is 75 when either side has no salary figure (none, or only zeros); with both bands given
  and a preference midpoint other than zero the deviation is banded: at most 10 gives 100,
  at most 20 gives 85, at most 30 gives 70, at most 50 gives 50, above that 25.
\<close>

theorem salary_sub_score:
  "calculate_salary_match (Some 100000) (Some 120000) (Some 150000) (Some 150000) = 70
   \<and> (\<not> truthy_int jmin \<and> \<not> truthy_int jmax \<or> \<not> truthy_int pmin \<and> \<not> truthy_int pmax
        \<longrightarrow> calculate_salary_match jmin jmax pmin pmax = 75)
   \<and> (a \<noteq> 0 \<and> b \<noteq> 0 \<and> p \<noteq> 0 \<and> q \<noteq> 0 \<and> p + q \<noteq> 0 \<longrightarrow>
        calculate_salary_match (Some a) (Some b) (Some p) (Some q) =
          (let job_mid = (of_int a + of_int b) / (2::rat);
               pref_mid = (of_int p + of_int q) / 2;
               deviation = \<bar>job_mid - pref_mid\<bar> / pref_mid * 100
           in if deviation \<le> 10 then 100
              else if deviation \<le> 20 then 85
              else if deviation \<le> 30 then 70
              else if deviation \<le> 50 then 50
              else 25))"
proof (intro conjI impI)
  show "calculate_salary_match (Some 100000) (Some 120000) (Some 150000) (Some 150000) = 70"
    by (simp add: calculate_salary_match_def truthy_int_def get_or_def salary_band_def)
next
  assume "\<not> truthy_int jmin \<and> \<not> truthy_int jmax \<or> \<not> truthy_int pmin \<and> \<not> truthy_int pmax"
  then show "calculate_salary_match jmin jmax pmin pmax = 75"
    by (auto simp add: calculate_salary_match_def Let_def)
next
  assume h: "a \<noteq> 0 \<and> b \<noteq> 0 \<and> p \<noteq> 0 \<and> q \<noteq> 0 \<and> p + q \<noteq> 0"
  then have "(of_int p + of_int q :: rat) \<noteq> 0"
    by (metis of_int_add of_int_eq_0_iff)
  with h show "calculate_salary_match (Some a) (Some b) (Some p) (Some q) =
          (let job_mid = (of_int a + of_int b) / (2::rat);
               pref_mid = (of_int p + of_int q) / 2;
               deviation = \<bar>job_mid - pref_mid\<bar> / pref_mid * 100
           in if deviation \<le> 10 then 100
              else if deviation \<le> 20 then 85
              else if deviation \<le> 30 then 70
              else if deviation \<le> 50 then 50
              else 25)"
    by (simp add: calculate_salary_match_def truthy_int_def get_or_def salary_band_def Let_def)
qed

theorem salary_sub_score_witness:
  "(100000::int) \<noteq> 0 \<and> (120000::int) \<noteq> 0 \<and> (150000::int) \<noteq> 0 \<and> (150000::int) + 150000 \<noteq> 0
   \<and> \<bar>((100000::rat) + 120000) / 2 - (150000 + 150000) / 2\<bar> / ((150000 + 150000) / 2) * 100 = 80 / 3
   \<and> calculate_salary_match (Some 100000) (Some 120000) (Some 150000) (Some 150000) = 70"
  using salary_sub_score [of None None None None 100000 120000 150000 150000]
  by simp

text \<open>
  C5: the skills sub-score is 100 when the posting requires no skills; otherwise it is
  the number of required skills that some candidate skill equals up to letter case,
  divided by the number of required skills, times 100, which is 0 for a candidate without
  skills. Required skills Python, AWS against candidate skills python, docker score 50.
\<close>

theorem skills_sub_score:
  "calculate_skills_match [] rs = 100
   \<and> (js \<noteq> [] \<longrightarrow>
        calculate_skills_match js rs =
          of_nat (length (filter (\<lambda>j. \<exists>r \<in> set rs. lower r = lower j) js))
            / of_nat (length js) * 100)
   \<and> (js \<noteq> [] \<longrightarrow> calculate_skills_match js [] = 0)
   \<and> calculate_skills_match [''Python'', ''AWS''] [''python'', ''docker''] = 50"
proof -
  have eq: "matched_count js rs = length (filter (\<lambda>j. \<exists>r \<in> set rs. lower r = lower j) js)"
    unfolding matched_count_def
    by (induction js) (auto simp add: image_iff)
  have "calculate_skills_match [''Python'', ''AWS''] [''python'', ''docker''] = 50"
    by code_simp
  then show ?thesis
    using eq by (simp add: calculate_skills_match_def)
qed

theorem skills_sub_score_witness:
  "[''Python'', ''AWS''] \<noteq> []
   \<and> calculate_skills_match [''Python'', ''AWS''] [''python'', ''docker''] =
       of_nat (length (filter (\<lambda>j. \<exists>r \<in> set [''python'', ''docker'']. lower r = lower j)
                          [''Python'', ''AWS''])) / of_nat (length [''Python'', ''AWS'']) * 100
   \<and> calculate_skills_match [''Python'', ''AWS''] [] = 0"
  using skills_sub_score [of "[''python'', ''docker'']" "[''Python'', ''AWS'']"]
  by simp

subsection \<open>The seniority score on the scale\<close>

lemma on_scale_not_empty:
  assumes "map_of experience_levels je = Some jl"
  shows "je \<noteq> []"
  using assms by (auto simp add: experience_levels_def)

lemma preference_level:
  "(case pref of None \<Rightarrow> None
    | Some p \<Rightarrow> if p \<noteq> [] then map_of experience_levels p else None)
   = Option.bind pref (map_of experience_levels)"
  by (cases pref) (simp_all add: experience_levels_def)

lemma experience_match_on_scale:
  assumes "map_of experience_levels je = Some jl"
  shows "calculate_experience_match (Some je) ex pref =
           claimed_seniority_score jl
             (case Option.bind pref (map_of experience_levels) of
                Some l \<Rightarrow> l
              | None \<Rightarrow> if ex \<noteq> [] then claimed_candidate_level None (length ex) else 2)"
proof (cases "Option.bind pref (map_of experience_levels)")
  case None
  then show ?thesis
    using on_scale_not_empty [OF assms] assms
    by (simp add: calculate_experience_match_def preference_level get_or_def Let_def
          claimed_seniority_score_def claimed_candidate_level_def
        split del: if_split cong: if_cong)
next
  case (Some l)
  then show ?thesis
    using on_scale_not_empty [OF assms] assms
    by (simp add: calculate_experience_match_def preference_level get_or_def Let_def
          claimed_seniority_score_def
        split del: if_split cong: if_cong)
qed

text \<open>
  C6, as the claim states it: a candidate with no explicit preference and no experience
  entries would be inferred Entry, at distance 0 from an Entry posting, scoring 100. The
  code scores that input 75.
\<close>

theorem seniority_counterexample:
  "calculate_experience_match (Some ''Entry'') [] None = 75
   \<and> claimed_seniority_score 1 (claimed_candidate_level None (length ([] :: string list))) = 100"
  by (simp add: calculate_experience_match_def experience_levels_def get_or_def
        claimed_seniority_score_def claimed_candidate_level_def)

text \<open>
  C6, amended: the seniority sub-score is 100 when the posting specifies no level. For a
  posting level on the scale it follows the distance to the candidate's level (0: 100,
  1: 75, 2: 50, 3 or more: 25), where the candidate's level is the explicit preference
  when one on the scale is given, otherwise inferred from a non-empty list of experience
  entries (at least 7: Lead, at least 5: Senior, at least 2: Mid, else Entry), and Mid
  when there is neither such a preference nor any experience entry.
\<close>

theorem seniority_sub_score:
  "calculate_experience_match None ex pref = 100
   \<and> calculate_experience_match (Some []) ex pref = 100
   \<and> (map_of experience_levels je = Some jl
        \<and> (Option.bind pref (map_of experience_levels) \<noteq> None \<or> ex \<noteq> []) \<longrightarrow>
        calculate_experience_match (Some je) ex pref =
          claimed_seniority_score jl
            (claimed_candidate_level (Option.bind pref (map_of experience_levels)) (length ex)))
   \<and> (map_of experience_levels je = Some jl
        \<and> Option.bind pref (map_of experience_levels) = None \<and> ex = [] \<longrightarrow>
        calculate_experience_match (Some je) ex pref = claimed_seniority_score jl 2)"
proof (intro conjI impI)
  show "calculate_experience_match None ex pref = 100"
    by (simp add: calculate_experience_match_def)
  show "calculate_experience_match (Some []) ex pref = 100"
    by (simp add: calculate_experience_match_def)
next
  assume h: "map_of experience_levels je = Some jl
        \<and> (Option.bind pref (map_of experience_levels) \<noteq> None \<or> ex \<noteq> [])"
  show "calculate_experience_match (Some je) ex pref =
          claimed_seniority_score jl
            (claimed_candidate_level (Option.bind pref (map_of experience_levels)) (length ex))"
  proof (cases "Option.bind pref (map_of experience_levels)")
    case None
    with h show ?thesis
      by (simp add: experience_match_on_scale)
  next
    case (Some l)
    with h show ?thesis
      by (simp add: experience_match_on_scale claimed_candidate_level_def)
  qed
next
  assume h: "map_of experience_levels je = Some jl
        \<and> Option.bind pref (map_of experience_levels) = None \<and> ex = []"
  then show "calculate_experience_match (Some je) ex pref = claimed_seniority_score jl 2"
    by (simp add: experience_match_on_scale)
qed

theorem seniority_sub_score_witness:
  "map_of experience_levels ''Senior'' = Some 3
   \<and> calculate_experience_match (Some ''Senior'') [''a'', ''b''] None = 75
   \<and> calculate_experience_match (Some ''Senior'') [] None = 75
   \<and> calculate_experience_match (Some ''Senior'') [] (Some ''Entry'') = 50"
  using seniority_sub_score [of "[''a'', ''b'']" None "''Senior''" 3]
    seniority_sub_score [of "[]" None "''Senior''" 3]
    seniority_sub_score [of "[]" "Some ''Entry''" "''Senior''" 3]
  by (simp add: experience_levels_def claimed_seniority_score_def claimed_candidate_level_def)

text \<open>
  C7: adding a skill to the candidate's skill list, at any position and with every other
  input fixed, never decreases the overall match score; this holds for every added skill,
  so in particular for one that the posting's required skills match up to letter case.
\<close>

theorem overall_score_monotone_in_skills:
  assumes "get_or (skills r) [] = ys @ zs"
  shows "overall_score (calculate_match_score jb r prefs)
         \<le> overall_score (calculate_match_score jb (r\<lparr>skills := Some (ys @ s # zs)\<rparr>) prefs)"
proof -
  let ?js = "get_or (skills_required jb) []"
  have "calculate_skills_match ?js (ys @ zs) \<le> calculate_skills_match ?js (ys @ s # zs)"
    by (rule calculate_skills_match_mono)
  then show ?thesis
    using assms
    by (simp add: calculate_match_score_def Let_def get_or_def WEIGHTS_def round1_mono)
qed

theorem overall_score_monotone_in_skills_witness:
  "get_or (skills example_resume) [] = [''python'', ''docker''] @ []
   \<and> overall_score (calculate_match_score example_job example_resume None)
       \<le> overall_score (calculate_match_score example_job
            (example_resume\<lparr>skills := Some ([''python'', ''docker''] @ ''aws'' # [])\<rparr>) None)"
  using overall_score_monotone_in_skills
          [of example_resume "[''python'', ''docker'']" "[]" example_job None "''aws''"]
  by (simp add: example_resume_def get_or_def)

text \<open>
  C8: when the store holds no resume of the user, computing a match returns a result, not
  an error: overall score 0 and the single recommendation to upload a resume.
\<close>

theorem no_profile_zero_score:
  assumes "\<not> down d" and "\<forall>r \<in> set (resumes d). resume_user_id r \<noteq> user_id"
  shows "\<exists>res. calculate_job_match jb user_id d = Inr res
           \<and> overall_score res = 0
           \<and> recommendations res = [''Please upload a resume to see match scores'']"
proof -
  have "List.find (\<lambda>r. resume_user_id r = user_id) (resumes d) = None"
    using assms(2) by (simp add: find_None_iff)
  then show ?thesis
    using assms(1) by (simp add: calculate_job_match_def find_one_def)
qed

theorem no_profile_zero_score_witness:
  "\<not> down example_db
   \<and> map resume_user_id (resumes example_db) = [''u1'']
   \<and> (\<exists>res. calculate_job_match example_job ''u2'' example_db = Inr res
           \<and> overall_score res = 0
           \<and> recommendations res = [''Please upload a resume to see match scores''])"
  using no_profile_zero_score [of example_db "''u2''" example_job]
  by (simp add: example_db_def example_resume_def)

section \<open>Properties of the lifecycle manager\<close>

lemma find_update_one:
  assumes "\<And>x. flt (upd x) = flt x"
  shows "List.find flt (update_one flt upd xs) = map_option upd (List.find flt xs)"
  using assms by (induction xs) auto

lemma find_map_same_key:
  assumes "\<And>x. flt (g x) = flt x"
  shows "List.find flt (map g xs) = map_option g (List.find flt xs)"
  using assms by (induction xs) auto

text \<open>
  C1: with the store reachable, the sweep removes exactly the postings created more than
  24 hours before the sweep whose applied-by and saved-by arrays are both empty (or
  absent), whatever their expiry marker, and returns their number. A posting created 25
  hours ago with both arrays empty is deleted; a posting created 23 hours ago is kept.
\<close>

theorem sweep_deletes_old_untouched_postings:
  assumes "\<not> down d"
  shows "jobs (snd (cleanup_expired_jobs now d)) =
           filter (\<lambda>j. \<not> ((\<exists>t. created_at j = Some t \<and> 24 * hour_us < now - t)
                           \<and> get_or (applied_by j) [] = [] \<and> get_or (saved_by j) [] = []))
             (jobs d)
         \<and> fst (cleanup_expired_jobs now d) =
             length (filter (\<lambda>j. (\<exists>t. created_at j = Some t \<and> 24 * hour_us < now - t)
                           \<and> get_or (applied_by j) [] = [] \<and> get_or (saved_by j) [] = [])
               (jobs d))
         \<and> (\<forall>j \<in> set (jobs d).
               created_at j = Some (now - 25 * hour_us)
               \<and> get_or (applied_by j) [] = [] \<and> get_or (saved_by j) [] = []
               \<longrightarrow> j \<notin> set (jobs (snd (cleanup_expired_jobs now d))))
         \<and> (\<forall>j \<in> set (jobs d).
               created_at j = Some (now - 23 * hour_us)
               \<longrightarrow> j \<in> set (jobs (snd (cleanup_expired_jobs now d))))"
proof -
  have flt: "sweep_filter (now - 1 * day_us) j =
          ((\<exists>t. created_at j = Some t \<and> 24 * hour_us < now - t)
           \<and> get_or (applied_by j) [] = [] \<and> get_or (saved_by j) [] = [])" for j
    by (cases "created_at j") (auto simp add: sweep_filter_def day_us_def hour_us_def)
  have js: "jobs (snd (cleanup_expired_jobs now d)) =
          filter (\<lambda>j. \<not> sweep_filter (now - 1 * day_us) j) (jobs d)"
    using assms by (simp add: cleanup_expired_jobs_def Let_def log_cleanup_event_def)
  have n: "fst (cleanup_expired_jobs now d) =
          length (filter (sweep_filter (now - 1 * day_us)) (jobs d))"
    using assms by (simp add: cleanup_expired_jobs_def Let_def)
  show ?thesis
    unfolding js n flt by (auto simp add: hour_us_def)
qed

theorem sweep_deletes_old_untouched_postings_witness:
  "\<not> down sweep_db
   \<and> map oid (jobs sweep_db) = [''64b7f0c2a1b2c3d4e5f60701'', ''64b7f0c2a1b2c3d4e5f60702'']
   \<and> map created_at (jobs sweep_db) = [Some (25 * hour_us - 25 * hour_us), Some (25 * hour_us - 23 * hour_us)]
   \<and> map oid (jobs (snd (cleanup_expired_jobs (25 * hour_us) sweep_db))) = [''64b7f0c2a1b2c3d4e5f60702'']
   \<and> fst (cleanup_expired_jobs (25 * hour_us) sweep_db) = 1"
  using sweep_deletes_old_untouched_postings [of sweep_db "25 * hour_us"]
  by (simp add: sweep_db_def example_db_def example_job_def get_or_def hour_us_def)

lemma pull_absent:
  assumes "user_id \<notin> set (get_or sb [])"
  shows "map_option (filter (\<lambda>u. u \<noteq> user_id)) sb = sb"
proof (cases sb)
  case None
  then show ?thesis by simp
next
  case (Some xs)
  with assms have "filter (\<lambda>u. u \<noteq> user_id) xs = xs"
    by (auto simp add: get_or_def filter_id_conv)
  with Some show ?thesis by simp
qed

text \<open>
  C10: unsaving a posting whose saved-by array does not contain the user leaves saved-by
  as it is and still decrements \<open>save_count\<close> by one. So a posting whose \<open>save_count\<close>
  equalled the length of saved-by no longer does, a count of 0 becomes -1, and the next
  count synchronisation sets \<open>save_count\<close> back to the length of saved-by.
\<close>

theorem unsave_absent_user_decrements:
  assumes "ObjectId_is_valid jid" and "\<not> down d"
    and "List.find (\<lambda>j. oid j = jid) (jobs d) = Some jb"
    and "user_id \<notin> set (get_or (saved_by jb) [])"
  shows "\<exists>d' jb'. unsave_job now jid user_id d = Inr (''Job unsaved successfully'', d')
           \<and> List.find (\<lambda>j. oid j = jid) (jobs d') = Some jb'
           \<and> saved_by jb' = saved_by jb
           \<and> save_count jb' = Some (get_or (save_count jb) 0 - 1)
           \<and> (save_count jb = Some (int (length (get_or (saved_by jb) [])))
                \<longrightarrow> save_count jb' \<noteq> Some (int (length (get_or (saved_by jb') []))))
           \<and> (save_count jb = Some 0 \<longrightarrow> save_count jb' = Some (- 1))
           \<and> map_option save_count
                (List.find (\<lambda>j. oid j = jid) (jobs (snd (sync_job_counts later d')))) =
               Some (Some (int (length (get_or (saved_by jb) []))))"
proof -
  let ?flt = "\<lambda>j. oid j = jid"
  let ?upd = "\<lambda>j. j\<lparr>saved_by := map_option (filter (\<lambda>u. u \<noteq> user_id)) (saved_by j),
                      save_count := Some (get_or (save_count j) 0 + (- 1))\<rparr>"
  let ?mark = "\<lambda>j. j\<lparr>expires_at := Some (now + 3 * day_us)\<rparr>"
  let ?d1 = "d\<lparr>jobs := update_one ?flt ?upd (jobs d)\<rparr>"
  let ?d2 = "log_job_event now jid ''unsaved'' (Some user_id) [] ?d1"
  let ?jb1 = "jb\<lparr>save_count := Some (get_or (save_count jb) 0 + (- 1))\<rparr>"
  have upd: "?upd jb = ?jb1"
    using pull_absent [OF assms(4)] by simp
  have jobs2: "jobs ?d2 = update_one ?flt ?upd (jobs d)" and down2: "\<not> down ?d2"
    using assms(2) by (simp_all add: log_job_event_def)
  have f2: "List.find ?flt (jobs ?d2) = Some ?jb1"
    unfolding jobs2 using assms(3) upd by (simp add: find_update_one)
  define d' where "d' =
     (if get_or (saved_by ?jb1) [] = [] \<and> get_or (applied_by ?jb1) [] = []
      then mark_job_for_deletion now jid 3 ?d2 else ?d2)"
  define jb' where "jb' =
     (if get_or (saved_by ?jb1) [] = [] \<and> get_or (applied_by ?jb1) [] = []
      then ?mark ?jb1 else ?jb1)"
  have res: "unsave_job now jid user_id d = Inr (''Job unsaved successfully'', d')"
    using assms(1,2) f2 down2
    by (simp add: unsave_job_def Let_def find_one_def d'_def)
  have fm: "List.find ?flt (jobs (mark_job_for_deletion now jid 3 ?d2)) = Some (?mark ?jb1)"
    using assms(1) down2 f2 by (simp add: mark_job_for_deletion_def find_update_one)
  have f': "List.find ?flt (jobs d') = Some jb'"
    unfolding d'_def jb'_def using fm f2 by simp
  have sb: "saved_by jb' = saved_by jb"
    and sc: "save_count jb' = Some (get_or (save_count jb) 0 - 1)"
    by (simp_all add: jb'_def)
  have nd': "\<not> down d'"
    using down2 assms(1) by (simp add: d'_def mark_job_for_deletion_def)
  have sync: "map_option save_count
                (List.find ?flt (jobs (snd (sync_job_counts later d')))) =
               Some (Some (int (length (get_or (saved_by jb) []))))"
    using nd' f' sb by (simp add: sync_job_counts_def find_map_same_key)
  show ?thesis
    using res f' sb sc sync by (auto simp add: get_or_def)
qed

theorem unsave_absent_user_decrements_witness:
  "ObjectId_is_valid ''64b7f0c2a1b2c3d4e5f60718'' \<and> \<not> down example_db
   \<and> List.find (\<lambda>j. oid j = ''64b7f0c2a1b2c3d4e5f60718'') (jobs example_db) = Some example_job
   \<and> saved_by example_job = Some [] \<and> save_count example_job = Some 0
   \<and> (\<exists>d' jb'. unsave_job 0 ''64b7f0c2a1b2c3d4e5f60718'' ''u1'' example_db
                   = Inr (''Job unsaved successfully'', d')
           \<and> List.find (\<lambda>j. oid j = ''64b7f0c2a1b2c3d4e5f60718'') (jobs d') = Some jb'
           \<and> saved_by jb' = Some []
           \<and> save_count jb' = Some (- 1))"
  using unsave_absent_user_decrements
    [of "''64b7f0c2a1b2c3d4e5f60718''" example_db example_job "''u1''" 0 0]
  by (simp add: example_db_def example_job_def get_or_def ObjectId_is_valid_def) blast

section \<open>Properties of applying\<close>

text \<open>\<open>apply_to_job\<close>, when it succeeds, leaves the posting without an expiry marker.\<close>

lemma apply_to_job_clears_expiry_marker:
  assumes "apply_to_job now jid resume_id user_id match_score new_id d = Inr (r, d')"
  shows "\<exists>jb'. List.find (\<lambda>j. oid j = jid) (jobs d') = Some jb'
           \<and> expires_at jb' = None \<and> expiry_invariant jb'"
  using assms
  by (auto simp add: apply_to_job_def Let_def log_job_event_def find_update_one
        expiry_invariant_def split: if_splits option.splits)

text \<open>
  C3 at a posting pending deletion (expiry marker set, no applicant, no saver): marking an
  external application succeeds and adds the applicant, but the expiry marker stays, so
  the posting then has an applicant and an expiry marker, against the invariant.
\<close>

theorem external_application_keeps_expiry_marker:
  "map expiry_invariant (jobs pending_db) = [True]
   \<and> (\<exists>r d'. mark_external_application 0 ''64b7f0c2a1b2c3d4e5f60718'' ''u1''
                 ''64b7f0c2a1b2c3d4e5f60a01'' pending_db = Inr (r, d')
          \<and> map expires_at (jobs d') = [Some (72 * hour_us)]
          \<and> map (\<lambda>j. map ae_user_id (get_or (applied_by j) [])) (jobs d') = [[''u1'']]
          \<and> map expiry_invariant (jobs d') = [False])"
  by (simp add: mark_external_application_def pending_db_def example_db_def example_job_def
        ObjectId_is_valid_def expiry_invariant_def get_or_def hour_us_def Let_def)

section \<open>Properties of ingestion\<close>

lemma store_job_duplicate:
  assumes "\<not> down d" and "job_url jb = Some u" and "\<exists>k \<in> set (jobs d). job_url k = Some u"
  shows "store_job process_job jb d = (Duplicate, d)"
proof -
  have "List.find (\<lambda>j. job_url j = Some u) (jobs d) \<noteq> None"
    using assms(3) by (auto simp add: find_None_iff)
  then have "check_duplicate u d = Inr True"
    using assms(1) by (simp add: check_duplicate_def find_one_def)
  then show ?thesis
    using assms(2) by (simp add: store_job_def)
qed

lemma store_each_all_duplicates:
  assumes "\<not> down d"
    and "\<forall>j \<in> set js. \<exists>u. job_url j = Some u \<and> (\<exists>k \<in> set (jobs d). job_url k = Some u)"
  shows "store_each process_job js (s, dup, err, d) = (s, dup + length js, err, d)"
  using assms(2)
proof (induction js arbitrary: dup)
  case Nil
  then show ?case by simp
next
  case (Cons jb rest)
  then obtain u where "job_url jb = Some u" and "\<exists>k \<in> set (jobs d). job_url k = Some u"
    by auto
  then have "store_job process_job jb d = (Duplicate, d)"
    using assms(1) by (rule store_job_duplicate [rotated])
  with Cons show ?case by simp
qed

text \<open>
  C2: with the store reachable, a pass over scraped postings each of which has a source
  URL that a stored posting already carries stores nothing: every posting is counted as a
  duplicate, none as stored or as an error, and the store is left as it was.
\<close>

theorem rerun_stores_nothing:
  assumes "\<not> down d" and "scrape_jobs sc limit = Inr js"
    and "\<forall>j \<in> set js. \<exists>u. job_url j = Some u \<and> (\<exists>k \<in> set (jobs d). job_url k = Some u)"
  shows "scrape_and_store sc process_job limit d =
           (\<lparr> platform = platform_name sc, scraped = length js, stored = 0,
               duplicates = length js, errors = 0, error_message = None \<rparr>, d)"
  using assms(2) store_each_all_duplicates [OF assms(1,3), of process_job 0 0 0]
  by (simp add: scrape_and_store_def)

theorem rerun_stores_nothing_witness:
  "\<not> down example_db
   \<and> scrape_jobs example_scraper 50 = Inr [example_job, second_job]
   \<and> map job_url [example_job, second_job]
       = [Some ''https://jobs.example/1'', Some ''https://jobs.example/2'']
   \<and> map job_url (jobs (example_db\<lparr>jobs := [example_job, second_job]\<rparr>))
       = [Some ''https://jobs.example/1'', Some ''https://jobs.example/2'']
   \<and> scrape_and_store example_scraper Inr 50 (example_db\<lparr>jobs := [example_job, second_job]\<rparr>) =
        (\<lparr> platform = ''RemoteOK'', scraped = 2, stored = 0,
            duplicates = 2, errors = 0, error_message = None \<rparr>,
         example_db\<lparr>jobs := [example_job, second_job]\<rparr>)"
  using rerun_stores_nothing
          [of "example_db\<lparr>jobs := [example_job, second_job]\<rparr>" example_scraper 50
              "[example_job, second_job]" Inr]
  by (simp add: example_scraper_def example_db_def example_job_def second_job_def)


















end
